theory Spec2Isabelle
  imports Complex_Main
begin

section \<open>Python values, strings and exceptions\<close>

text \<open>
  The gateway is a Python program. Values stored in untyped dictionaries
  (\<open>Dict[str, Any]\<close>) are modelled by the scalar values a YAML router
  configuration can hold. Strings are ASCII strings. Floats are read as the
  real numbers they denote: rounding is not part of the model.
\<close>

datatype pyval = PNone | PBool bool | PInt int | PStr string



fun str_nat :: "nat \<Rightarrow> string" where
  "str_nat n =
     (if n < 10 then [''0123456789'' ! n]
      else str_nat (n div 10) @ [''0123456789'' ! (n mod 10)])"

declare str_nat.simps [simp del]


text \<open>
  The exception classes of \<open>errors/exceptions.py\<close> that the modelled code
  raises, the built-in exceptions its expressions can raise, and
  \<open>OtherException\<close> for any further subclass of \<open>Exception\<close> (named by its
  class), as an upstream client library raises. An exception value carries its
  class and \<open>str(e)\<close>; for a \<open>GatewayError\<close> that is the message it was built
  with.
\<close>

datatype error_kind =
    RouterError
  | ModelNotFoundError
  | ProviderNotFoundError
  | ProviderError
  | AuthenticationError
  | RateLimitExceededError
  | ZeroDivisionError
  | AttributeError
  | OtherException string

datatype py_exception = Raised (exc_kind: error_kind) (exc_str: string)

text \<open>\<open>s.startswith(p)\<close> and \<open>s.split(sep, 1)[1]\<close> for a one-character separator.\<close>

fun startswith :: "string \<Rightarrow> string \<Rightarrow> bool" where
  "startswith s [] = True"
| "startswith [] (p # ps) = False"
| "startswith (c # cs) (p # ps) = (c = p \<and> startswith cs ps)"

definition split_once_snd :: "string \<Rightarrow> char \<Rightarrow> py_exception + string" where
  "split_once_snd s sep =
     (case dropWhile (\<lambda>c. c \<noteq> sep) s of
        [] \<Rightarrow> Inl (Raised (OtherException ''IndexError'') ''list index out of range'')
      | _ # rest \<Rightarrow> Inr rest)"

section \<open>Data model\<close>

subsection \<open>Model catalog (\<open>config/models.py\<close>, \<open>core/models.py\<close>)\<close>

record inference_provider_config =
  provider :: string
  model_name :: string
  endpoint :: "string option"
  api_version :: "string option"

text \<open>
  \<open>ModelDefinition\<close>: the fields the routing and execution code reads, and the
  descriptive ones; price, limits, formats and capabilities are never read by
  the functions modelled here and are left out.
\<close>

record model_definition =
  model :: string
  model_provider :: string
  inference_provider :: inference_provider_config
  description :: string

text \<open>
  \<open>ModelRegistry._models\<close> after loading: a dictionary from model id to
  definition. \<open>get_model\<close> is \<open>self._models.get(model_id)\<close>.
\<close>

type_synonym model_registry = "string \<rightharpoonup> model_definition"

definition get_model :: "model_registry \<Rightarrow> string \<Rightarrow> model_definition option" where
  "get_model registry model_id = registry model_id"

subsection \<open>Routers (\<open>config/models.py\<close>)\<close>

datatype sort_order = Asc | Desc

record metric_selector =
  metric_name :: string
  order :: sort_order

text \<open>
  \<open>Router.strategy\<close> is a union of four classes, told apart by their \<open>type\<close>
  literal; \<open>PercentageStrategy\<close> carries \<open>targets_percentages\<close> and
  \<open>OptimizedStrategy\<close> carries \<open>metric\<close>.
\<close>

datatype router_strategy =
    FallbackStrategy
  | PercentageStrategy (targets_percentages: "real list")
  | RandomStrategy
  | OptimizedStrategy (metric: metric_selector)

fun strategy_type :: "router_strategy \<Rightarrow> string" where
  "strategy_type FallbackStrategy = ''fallback''"
| "strategy_type (PercentageStrategy ps) = ''percentage''"
| "strategy_type RandomStrategy = ''random''"
| "strategy_type (OptimizedStrategy m) = ''optimized''"

text \<open>A target is a dictionary; its items are kept in insertion order.\<close>

type_synonym target = "(string \<times> pyval) list"

definition dict_get :: "target \<Rightarrow> string \<Rightarrow> pyval option" where
  "dict_get d k = map_of d k"

datatype metrics_duration = Total | Last15Minutes | LastHour

record router =
  name :: string
  strategy :: router_strategy
  targets :: "target list"
  metrics_duration :: "metrics_duration option"

subsection \<open>Requests (\<open>core/types.py\<close>)\<close>

datatype role = System | User | Assistant | Tool | Function

record message_content =
  part_type :: string
  part_text :: "string option"

datatype content = StrContent string | PartsContent "message_content list"

record chat_message =
  msg_role :: role
  msg_content :: content
  msg_name :: "string option"
  msg_tool_call_id :: "string option"

text \<open>
  \<open>ChatCompletionRequest\<close>: \<open>model\<close>, \<open>messages\<close> and \<open>stream\<close> are typed
  fields; \<open>req_fields\<close> holds the values of the remaining declared fields and
  of the extra fields the class allows, by name.
\<close>

record chat_completion_request =
  req_model :: string
  req_messages :: "chat_message list"
  req_stream :: "bool option"
  req_fields :: "(string \<times> pyval) list"

section \<open>The random module\<close>

text \<open>
  The module-level generator of \<open>random\<close> is state: an entropy source and the
  number of values taken from it so far. \<open>random()\<close> returns \<open>k / 2^53\<close> for a
  53-bit integer \<open>k\<close>; \<open>uniform(a, b)\<close> is \<open>a + (b - a) * random()\<close>;
  \<open>choice(seq)\<close> is \<open>seq[_randbelow(len(seq))]\<close>, where \<open>_randbelow(n)\<close>
  lies in \<open>range(n)\<close>. Each call is modelled as taking one value from the
  source.
\<close>

record rng =
  entropy :: "nat \<Rightarrow> nat"
  taken :: nat

definition rng_next :: "rng \<Rightarrow> nat \<times> rng" where
  "rng_next g = (entropy g (taken g), g\<lparr>taken := Suc (taken g)\<rparr>)"

definition random_random :: "rng \<Rightarrow> real \<times> rng" where
  "random_random g = (case rng_next g of (k, g') \<Rightarrow> (real (k mod 2 ^ 53) / 2 ^ 53, g'))"

definition random_uniform :: "real \<Rightarrow> real \<Rightarrow> rng \<Rightarrow> real \<times> rng" where
  "random_uniform a b g = (case random_random g of (u, g') \<Rightarrow> (a + (b - a) * u, g'))"

definition random_choice :: "'a list \<Rightarrow> rng \<Rightarrow> (py_exception + 'a) \<times> rng" where
  "random_choice seq g =
     (if seq = [] then
        (Inl (Raised (OtherException ''IndexError'') ''Cannot choose from an empty sequence''), g)
      else case rng_next g of (k, g') \<Rightarrow> (Inr (seq ! (k mod length seq)), g'))"

section \<open>Routing engine (\<open>routing/router.py\<close>)\<close>

text \<open>
  \<open>RoutingEngine.__init__\<close> builds \<open>_router_map\<close> by assigning each router
  under its name, in list order, so a later router replaces an earlier one of
  the same name.
\<close>

type_synonym router_map = "string \<rightharpoonup> router"

definition build_router_map :: "router list \<Rightarrow> router_map" where
  "build_router_map routers = foldl (\<lambda>m r. m(name r \<mapsto> r)) Map.empty routers"

definition add_router :: "router_map \<Rightarrow> router \<Rightarrow> router_map" where
  "add_router m r = m(name r \<mapsto> r)"

definition get_router :: "router_map \<Rightarrow> string \<Rightarrow> router option" where
  "get_router m n = m n"

definition no_targets_error :: "router \<Rightarrow> py_exception" where
  "no_targets_error r = Raised RouterError (''Router '' @ name r @ '' has no targets'')"

text \<open>
  The strategy functions take the router, the request and the context as the
  source does; none of them reads the request or the context. The context is
  an argument of any type. Calls of the logger change no result and are left
  out, here and in the executor.
\<close>

definition apply_fallback_strategy ::
  "router \<Rightarrow> chat_completion_request \<Rightarrow> 'c \<Rightarrow> rng \<Rightarrow> (py_exception + target) \<times> rng" where
  "apply_fallback_strategy r request context g =
     (if targets r = [] then (Inl (no_targets_error r), g)
      else (Inr (targets r ! 0), g))"

text \<open>
  The normalisation \<open>[p * 100 / total for p in percentages]\<close> divides each
  entry by \<open>total\<close>; Python raises \<open>ZeroDivisionError\<close>, with CPython's
  text for a float division, at the first entry when \<open>total\<close> is zero.
\<close>

definition normalize_percentages :: "real list \<Rightarrow> py_exception + real list" where
  "normalize_percentages percentages =
     (let total = sum_list percentages in
      if total \<noteq> 100 then
        (if total = 0 \<and> percentages \<noteq> [] then
           Inl (Raised ZeroDivisionError ''float division by zero'')
         else Inr (map (\<lambda>p. p * 100 / total) percentages))
      else Inr percentages)"

text \<open>
  The loop \<open>for i, pct in enumerate(percentages)\<close>: the running index and
  cumulative sum are arguments; the result is the index at which the loop
  returns, or \<open>None\<close> when it runs to its end.
\<close>

fun percentage_loop :: "real \<Rightarrow> real \<Rightarrow> nat \<Rightarrow> real list \<Rightarrow> nat option" where
  "percentage_loop rand_val cumulative i [] = None"
| "percentage_loop rand_val cumulative i (pct # rest) =
     (let cumulative' = cumulative + pct in
      if rand_val \<le> cumulative' then Some i
      else percentage_loop rand_val cumulative' (Suc i) rest)"

definition mismatch_error :: "nat \<Rightarrow> nat \<Rightarrow> py_exception" where
  "mismatch_error np nt =
     Raised RouterError
       (''Number of percentages ('' @ str_nat np @ '') does not match number of targets (''
          @ str_nat nt @ '')'')"

definition apply_percentage_strategy ::
  "router \<Rightarrow> chat_completion_request \<Rightarrow> 'c \<Rightarrow> rng \<Rightarrow> (py_exception + target) \<times> rng" where
  "apply_percentage_strategy r request context g =
     (if targets r = [] then (Inl (no_targets_error r), g)
      else case strategy r of
        PercentageStrategy percentages \<Rightarrow>
          (if length percentages \<noteq> length (targets r) then
             (Inl (mismatch_error (length percentages) (length (targets r))), g)
           else case normalize_percentages percentages of
             Inl e \<Rightarrow> (Inl e, g)
           | Inr normalized \<Rightarrow>
               (case random_uniform 0 100 g of (rand_val, g') \<Rightarrow>
                  (case percentage_loop rand_val 0 0 normalized of
                     Some i \<Rightarrow> (Inr (targets r ! i), g')
                   | None \<Rightarrow> (Inr (last (targets r)), g'))))
      | _ \<Rightarrow> (Inl (Raised RouterError ''Percentage strategy requires targets_percentages''), g))"

definition apply_random_strategy ::
  "router \<Rightarrow> chat_completion_request \<Rightarrow> 'c \<Rightarrow> rng \<Rightarrow> (py_exception + target) \<times> rng" where
  "apply_random_strategy r request context g =
     (if targets r = [] then (Inl (no_targets_error r), g)
      else random_choice (targets r) g)"

definition apply_optimized_strategy ::
  "router \<Rightarrow> chat_completion_request \<Rightarrow> 'c \<Rightarrow> rng \<Rightarrow> (py_exception + target) \<times> rng" where
  "apply_optimized_strategy r request context g =
     (if targets r = [] then (Inl (no_targets_error r), g)
      else case strategy r of
        OptimizedStrategy m \<Rightarrow> random_choice (targets r) g
      | _ \<Rightarrow> (Inl (Raised RouterError ''Optimized strategy requires a metric selector''), g))"

text \<open>
  \<open>_apply_routing_strategy\<close>: the empty-targets check is outside the
  \<open>try\<close>; every exception raised inside it, a \<open>RouterError\<close> included, is
  replaced by \<open>RouterError(f"Routing strategy error: {e}")\<close>. The four
  strategy classes are the only values of \<open>router.strategy\<close>, so the branch
  for an unknown \<open>type\<close> has no input.
\<close>

definition dispatch_strategy ::
  "router \<Rightarrow> chat_completion_request \<Rightarrow> 'c \<Rightarrow> rng \<Rightarrow> (py_exception + target) \<times> rng" where
  "dispatch_strategy r request context g =
     (case strategy r of
        FallbackStrategy \<Rightarrow> apply_fallback_strategy r request context g
      | PercentageStrategy ps \<Rightarrow> apply_percentage_strategy r request context g
      | RandomStrategy \<Rightarrow> apply_random_strategy r request context g
      | OptimizedStrategy m \<Rightarrow> apply_optimized_strategy r request context g)"

definition apply_routing_strategy ::
  "router \<Rightarrow> chat_completion_request \<Rightarrow> 'c \<Rightarrow> rng \<Rightarrow> (py_exception + target) \<times> rng" where
  "apply_routing_strategy r request context g =
     (if targets r = [] then (Inl (no_targets_error r), g)
      else case dispatch_strategy r request context g of
        (Inl e, g') \<Rightarrow> (Inl (Raised RouterError (''Routing strategy error: '' @ exc_str e)), g')
      | (Inr t, g') \<Rightarrow> (Inr t, g'))"

text \<open>
  \<open>route_chat_request\<close>. The engine is its router map; the model catalog is
  the module-level \<open>model_registry\<close>.
\<close>

definition route_chat_request ::
  "router_map \<Rightarrow> model_registry \<Rightarrow> chat_completion_request \<Rightarrow> 'c \<Rightarrow> rng
     \<Rightarrow> (py_exception + target) \<times> rng" where
  "route_chat_request engine registry request context g =
     (let model_id = req_model request in
      if startswith model_id ''router/'' then
        (case split_once_snd model_id CHR ''/'' of
           Inl e \<Rightarrow> (Inl e, g)
         | Inr router_name \<Rightarrow>
             (case get_router engine router_name of
                None \<Rightarrow> (Inl (Raised RouterError (''Router not found: '' @ router_name)), g)
              | Some r \<Rightarrow> apply_routing_strategy r request context g))
      else
        (case get_model registry model_id of
           None \<Rightarrow> (Inl (Raised ModelNotFoundError (''Model not found: '' @ model_id)), g)
         | Some m \<Rightarrow>
             (Inr [(''model'', PStr (model_name (inference_provider m))),
                   (''provider'', PStr (provider (inference_provider m)))], g)))"

section \<open>Anthropic adapter (\<open>providers/anthropic.py\<close>)\<close>







section \<open>Request executor (\<open>core/executor.py\<close>)\<close>

subsection \<open>Responses, usage records and the context\<close>

record usage =
  prompt_tokens :: int
  completion_tokens :: int
  total_tokens :: int

datatype finish_reason = Stop | Length | ContentFilter | ToolCalls | FunctionCall





record embedding_request =
  emb_model :: string
  emb_input :: "string list"

text \<open>\<open>EmbeddingResponse.usage\<close> is a required field.\<close>

record embedding_response =
  emb_resp_model :: string
  emb_data :: "real list list"
  emb_usage :: usage

record image_generation_request =
  img_model :: string
  prompt :: string
  img_n :: "int option"

record image_generation_response =
  img_created :: int
  img_data :: "string list"





record request_context =
  request_id :: string
  user_id :: "string option"
  thread_id :: "string option"
  run_id :: "string option"
  target_model :: pyval
  target_provider :: pyval


definition with_target :: "request_context \<Rightarrow> target \<Rightarrow> request_context" where
  "with_target ctx t =
     (let ctx1 = (case dict_get t ''model'' of
                    Some v \<Rightarrow> ctx\<lparr>target_model := v\<rparr> | None \<Rightarrow> ctx)
      in case dict_get t ''provider'' of
           Some v \<Rightarrow> ctx1\<lparr>target_provider := v\<rparr> | None \<Rightarrow> ctx1)"



subsection \<open>Providers and their registry\<close>








subsection \<open>Token estimates\<close>










subsection \<open>The executor\<close>













section \<open>Percentage selection as specified\<close>





section \<open>The streaming estimate as specified\<close>



section \<open>An example configuration\<close>

text \<open>
  A catalog entry, two targets, a router \<open>ab\<close> over given targets under a
  given strategy, and a request naming a model or a router. The example
  generator hands out \<open>0, 1, 2, ...\<close> from a given position on. An adapter
  is given by its four answers; the executor has no routers and a storage
  holding given records.
\<close>

definition gpt4o :: model_definition where
  "gpt4o =
     \<lparr>model = ''gpt-4o'', model_provider = ''openai'',
      inference_provider =
        \<lparr>provider = ''openai'', model_name = ''gpt-4o-2024-08-06'',
         endpoint = None, api_version = None\<rparr>,
      description = []\<rparr>"

definition target_a :: target where
  "target_a = [(''model'', PStr ''gpt-4o-2024-08-06''), (''provider'', PStr ''openai'')]"

definition target_b :: target where
  "target_b = [(''model'', PStr ''claude-3-5-sonnet''), (''provider'', PStr ''anthropic'')]"

definition router_ab :: "router_strategy \<Rightarrow> target list \<Rightarrow> router" where
  "router_ab s ts = \<lparr>name = ''ab'', strategy = s, targets = ts, metrics_duration = None\<rparr>"

definition request_for :: "string \<Rightarrow> chat_completion_request" where
  "request_for m =
     \<lparr>req_model = m,
      req_messages =
        [\<lparr>msg_role = User, msg_content = StrContent ''count to three'',
          msg_name = None, msg_tool_call_id = None\<rparr>],
      req_stream = None, req_fields = []\<rparr>"

definition rng_at :: "nat \<Rightarrow> rng" where
  "rng_at k = \<lparr>entropy = id, taken = k\<rparr>"






section \<open>Direct lookups\<close>

text \<open>
  C1. A request whose model identifier does not start with \<open>router/\<close> is
  looked up in the catalog: when the identifier is present the result is
  exactly the target holding the entry's upstream model name and provider;
  when it is absent \<open>ModelNotFoundError\<close> is raised. No random value is
  drawn either way.
\<close>

theorem direct_lookup:
  "\<not> startswith (req_model request) ''router/'' \<Longrightarrow>
   route_chat_request engine registry request context g =
     (case registry (req_model request) of
        Some m \<Rightarrow>
          (Inr [(''model'', PStr (model_name (inference_provider m))),
                (''provider'', PStr (provider (inference_provider m)))], g)
      | None \<Rightarrow>
          (Inl (Raised ModelNotFoundError (''Model not found: '' @ req_model request)), g))"
  by (simp add: route_chat_request_def get_model_def split: option.splits)

text \<open>The catalog holding \<open>gpt-4o\<close>, and the empty catalog.\<close>

theorem direct_lookup_witness:
  "\<not> startswith (req_model (request_for ''gpt-4o'')) ''router/''
   \<and> route_chat_request Map.empty [''gpt-4o'' \<mapsto> gpt4o] (request_for ''gpt-4o'') () (rng_at 0) =
       (Inr [(''model'', PStr ''gpt-4o-2024-08-06''), (''provider'', PStr ''openai'')], rng_at 0)
   \<and> route_chat_request Map.empty Map.empty (request_for ''gpt-4o'') () (rng_at 0) =
       (Inl (Raised ModelNotFoundError ''Model not found: gpt-4o''), rng_at 0)"
  using direct_lookup [of "request_for ''gpt-4o''" Map.empty "[''gpt-4o'' \<mapsto> gpt4o]" "()" "rng_at 0"]
    direct_lookup [of "request_for ''gpt-4o''" Map.empty Map.empty "()" "rng_at 0"]
  by (simp add: request_for_def gpt4o_def)

section \<open>Router references\<close>

text \<open>
  A request for \<open>router/n\<close>, with a router registered under \<open>n\<close>, is
  answered by that router's strategy.
\<close>

lemma route_to_router:
  "engine n = Some r \<Longrightarrow> req_model request = ''router/'' @ n \<Longrightarrow>
   route_chat_request engine registry request ctx g = apply_routing_strategy r request ctx g"
  by (simp add: route_chat_request_def split_once_snd_def get_router_def)

text \<open>
  C5. For a router whose target list is empty, each of the four strategy
  functions raises \<open>RouterError\<close>, and so do the strategy dispatch and
  \<open>route_chat_request\<close> for a request naming that router: no target is
  returned.
\<close>

theorem empty_targets_router_error:
  assumes "targets r = []"
  shows "apply_fallback_strategy r request ctx g =
           (Inl (Raised RouterError (''Router '' @ name r @ '' has no targets'')), g)
       \<and> apply_percentage_strategy r request ctx g =
           (Inl (Raised RouterError (''Router '' @ name r @ '' has no targets'')), g)
       \<and> apply_random_strategy r request ctx g =
           (Inl (Raised RouterError (''Router '' @ name r @ '' has no targets'')), g)
       \<and> apply_optimized_strategy r request ctx g =
           (Inl (Raised RouterError (''Router '' @ name r @ '' has no targets'')), g)
       \<and> apply_routing_strategy r request ctx g =
           (Inl (Raised RouterError (''Router '' @ name r @ '' has no targets'')), g)
       \<and> (engine n = Some r \<and> req_model request = ''router/'' @ n \<longrightarrow>
            route_chat_request engine registry request ctx g =
              (Inl (Raised RouterError (''Router '' @ name r @ '' has no targets'')), g))"
  using assms route_to_router [of engine n r request registry ctx g]
  by (auto simp: apply_fallback_strategy_def apply_percentage_strategy_def
      apply_random_strategy_def apply_optimized_strategy_def apply_routing_strategy_def
      no_targets_error_def)

theorem empty_targets_router_error_witness:
  "targets (router_ab RandomStrategy []) = []
   \<and> apply_routing_strategy (router_ab RandomStrategy []) (request_for ''router/ab'') () (rng_at 0) =
       (Inl (Raised RouterError ''Router ab has no targets''), rng_at 0)
   \<and> route_chat_request [''ab'' \<mapsto> router_ab RandomStrategy []] Map.empty
         (request_for ''router/ab'') () (rng_at 0) =
       (Inl (Raised RouterError ''Router ab has no targets''), rng_at 0)"
  using empty_targets_router_error [where r = "router_ab RandomStrategy []"
      and request = "request_for ''router/ab''" and ctx = "()" and g = "rng_at 0"
      and engine = "[''ab'' \<mapsto> router_ab RandomStrategy []]" and n = "''ab''"
      and registry = Map.empty]
  by (simp add: router_ab_def request_for_def)

text \<open>
  C6. For a router with the fallback strategy and a non-empty target list,
  the strategy, the dispatch and \<open>route_chat_request\<close> return
  \<open>targets[0]\<close>, whatever the request, the context and the state of the
  random generator are; the generator is left as it was, so a repeated call
  returns the same target.
\<close>

theorem fallback_first_target:
  assumes "targets r \<noteq> []" and "strategy r = FallbackStrategy"
  shows "apply_fallback_strategy r request ctx g = (Inr (targets r ! 0), g)
       \<and> apply_routing_strategy r request ctx g = (Inr (targets r ! 0), g)
       \<and> (engine n = Some r \<and> req_model request = ''router/'' @ n \<longrightarrow>
            route_chat_request engine registry request ctx g = (Inr (targets r ! 0), g))"
  using assms route_to_router [of engine n r request registry ctx g]
  by (auto simp: apply_fallback_strategy_def apply_routing_strategy_def dispatch_strategy_def)

theorem fallback_first_target_witness:
  "targets (router_ab FallbackStrategy [target_a, target_b]) \<noteq> []
   \<and> strategy (router_ab FallbackStrategy [target_a, target_b]) = FallbackStrategy
   \<and> route_chat_request [''ab'' \<mapsto> router_ab FallbackStrategy [target_a, target_b]] Map.empty
         (request_for ''router/ab'') () (rng_at 0) = (Inr target_a, rng_at 0)"
  using fallback_first_target [where r = "router_ab FallbackStrategy [target_a, target_b]"
      and request = "request_for ''router/ab''" and ctx = "()" and g = "rng_at 0"
      and engine = "[''ab'' \<mapsto> router_ab FallbackStrategy [target_a, target_b]]" and n = "''ab''"
      and registry = Map.empty]
  by (simp add: router_ab_def request_for_def)

text \<open>
  C7. For a percentage router whose list of percentages and list of targets
  differ in length, the strategy, the dispatch and \<open>route_chat_request\<close>
  raise \<open>RouterError\<close>, and the random generator is returned as it was
  given: no value has been drawn.
\<close>

theorem percentage_mismatch_router_error:
  assumes "strategy r = PercentageStrategy ws" and "length ws \<noteq> length (targets r)"
  shows "(\<exists>msg. apply_percentage_strategy r request ctx g = (Inl (Raised RouterError msg), g))
       \<and> (\<exists>msg. apply_routing_strategy r request ctx g = (Inl (Raised RouterError msg), g))
       \<and> (engine n = Some r \<and> req_model request = ''router/'' @ n \<longrightarrow>
            (\<exists>msg. route_chat_request engine registry request ctx g =
               (Inl (Raised RouterError msg), g)))"
  using assms route_to_router [of engine n r request registry ctx g]
  by (auto simp: apply_percentage_strategy_def apply_routing_strategy_def dispatch_strategy_def
      no_targets_error_def mismatch_error_def)

theorem percentage_mismatch_router_error_witness:
  "strategy (router_ab (PercentageStrategy [100]) [target_a, target_b]) = PercentageStrategy [100]
   \<and> length [100 :: real] \<noteq> length (targets (router_ab (PercentageStrategy [100]) [target_a, target_b]))
   \<and> (\<exists>msg. apply_routing_strategy (router_ab (PercentageStrategy [100]) [target_a, target_b])
          (request_for ''router/ab'') () (rng_at 0) = (Inl (Raised RouterError msg), rng_at 0))"
  using percentage_mismatch_router_error
    [where r = "router_ab (PercentageStrategy [100]) [target_a, target_b]"
      and ws = "[100]" and request = "request_for ''router/ab''" and ctx = "()" and g = "rng_at 0"]
  by (simp add: router_ab_def)

lemma random_choice_member:
  "seq \<noteq> [] \<Longrightarrow> \<exists>x. fst (random_choice seq g) = Inr x \<and> x \<in> set seq"
  by (simp add: random_choice_def rng_next_def)

text \<open>
  C8. For a router with a non-empty target list and the random strategy or
  the optimized strategy (which, having no metrics, chooses at random), the
  dispatch returns a target, and that target is an element of the router's
  target list.
\<close>

theorem random_and_optimized_member:
  assumes "targets r \<noteq> []"
    and "strategy r = RandomStrategy \<or> strategy r = OptimizedStrategy m"
  shows "\<exists>t. fst (apply_routing_strategy r request ctx g) = Inr t \<and> t \<in> set (targets r)"
  using assms random_choice_member [of "targets r" g]
  by (auto simp: apply_routing_strategy_def dispatch_strategy_def apply_random_strategy_def
      apply_optimized_strategy_def split: prod.splits sum.splits)

theorem random_and_optimized_member_witness:
  "targets (router_ab RandomStrategy [target_a, target_b]) \<noteq> []
   \<and> strategy (router_ab RandomStrategy [target_a, target_b]) = RandomStrategy
   \<and> (\<exists>t. fst (apply_routing_strategy (router_ab RandomStrategy [target_a, target_b])
          (request_for ''router/ab'') () (rng_at 1)) = Inr t
        \<and> t \<in> set (targets (router_ab RandomStrategy [target_a, target_b])))
   \<and> fst (apply_routing_strategy (router_ab RandomStrategy [target_a, target_b])
          (request_for ''router/ab'') () (rng_at 1)) = Inr target_b"
  using random_and_optimized_member [where r = "router_ab RandomStrategy [target_a, target_b]"
      and request = "request_for ''router/ab''" and ctx = "()" and g = "rng_at 1"]
  by (simp add: router_ab_def apply_routing_strategy_def dispatch_strategy_def
      apply_random_strategy_def random_choice_def rng_next_def rng_at_def)

section \<open>The percentage strategy\<close>

















section \<open>Error classification in the Anthropic adapter\<close>






section \<open>Usage accounting of the executor\<close>

lemma with_target_ids [simp]:
  "user_id (with_target ctx t) = user_id ctx"
  "request_id (with_target ctx t) = request_id ctx"
  "thread_id (with_target ctx t) = thread_id ctx"
  "run_id (with_target ctx t) = run_id ctx"
  by (simp_all add: with_target_def Let_def split: option.splits)




























end
